theory Spec2Isabelle
  imports Main
begin

section \<open>Account form handlers: profile update, password change, withdrawal\<close>

text \<open>
  A shallow embedding of the three server actions \<open>updateProfile\<close>,
  \<open>updatePassword\<close> and \<open>withdrawUser\<close> and of the two zod schemas they use.
  The handlers talk to four collaborators (session, datastore, bcrypt, Next.js cache
  invalidation). Every call to a collaborator is appended to a trace kept in the world
  state, so that statements such as "the lookup is never issued" or "destroy comes after
  delete" are statements about that trace. A handler either returns a
  \<open>FormActionState\<close> (\<open>Inr\<close>) or rejects with an uncaught exception (\<open>Inl\<close>).

  Form strings are modelled as \<open>string\<close> and the JavaScript string functions are
  written out for ASCII text.
\<close>

subsection \<open>JavaScript strings\<close>

definition is_space :: "char \<Rightarrow> bool" where
  \<comment> \<open>the ASCII white space and line terminators removed by \<open>String.prototype.trim\<close>\<close>
  "is_space c = (c \<in> set [CHR '' '', CHR 0x09, CHR 0x0A, CHR 0x0B, CHR 0x0C, CHR 0x0D])"

definition trim :: "string \<Rightarrow> string" where
  "trim s = rev (dropWhile is_space (rev (dropWhile is_space s)))"

definition lower_char :: "char \<Rightarrow> char" where
  "lower_char c =
     (let n = (of_char c :: nat) in if 65 \<le> n \<and> n \<le> 90 then char_of (n + 32) else c)"

definition toLowerCase :: "string \<Rightarrow> string" where
  "toLowerCase s = map lower_char s"

definition uri_unreserved :: "char \<Rightarrow> bool" where
  \<comment> \<open>the characters \<open>encodeURIComponent\<close> leaves alone: letters, digits and \<open>-_.!~*'()\<close>\<close>
  "uri_unreserved c =
     (let n = (of_char c :: nat) in
        (65 \<le> n \<and> n \<le> 90) \<or> (97 \<le> n \<and> n \<le> 122) \<or> (48 \<le> n \<and> n \<le> 57)
        \<or> n \<in> set [45, 95, 46, 33, 126, 42, 39, 40, 41])"

definition hex_digit :: "nat \<Rightarrow> char" where
  "hex_digit n = (if n < 10 then char_of (48 + n) else char_of (55 + n))"

definition encode_char :: "char \<Rightarrow> string" where
  "encode_char c =
     (if uri_unreserved c then [c]
      else [CHR ''%'', hex_digit ((of_char c :: nat) div 16), hex_digit ((of_char c :: nat) mod 16)])"

definition encodeURIComponent :: "string \<Rightarrow> string" where
  "encodeURIComponent s = concat (map encode_char s)"

subsection \<open>Data model\<close>

text \<open>The user table: \<open>id\<close>, \<open>email\<close> and \<open>username\<close> are unique keys, \<open>bio\<close> is nullable.\<close>

record user =
  user_id :: int
  user_email :: string
  user_username :: string
  user_bio :: "string option"
  user_password :: string

datatype path_kind = Layout | Page

text \<open>
  Every message the handlers can return. The constants of
  \<open>ACCOUNT_VALIDATION.ERROR_MESSAGES\<close> live in a module that is not part of the sources,
  so each is a constructor of its own; so is each literal of the handlers (Korean text,
  named here by its meaning) and zod's default message for a value that is not a string.
\<close>

datatype msg =
    EMAIL_REQUIRED | EMAIL_INVALID_TYPE | EMAIL_INVALID_FORMAT | EMAIL_DUPLICATE
  | USERNAME_REQUIRED | USERNAME_INVALID_TYPE | USERNAME_TOO_SHORT | USERNAME_DUPLICATE
  | PASSWORD_REQUIRED | PASSWORD_INVALID_TYPE | PASSWORD_TOO_SHORT | PASSWORD_NO_NUMBER
  | PASSWORD_CONFIRM
  | CURRENT_PASSWORD_REQUIRED
  | ZOD_EXPECTED_STRING
  | PROFILE_UPDATED | PROFILE_UPDATE_FAILED
  | CURRENT_PASSWORD_MISMATCH | PASSWORD_UPDATED | PASSWORD_UPDATE_FAILED
  | LOGIN_REQUIRED | ENTER_PASSWORD | USER_NOT_FOUND | PASSWORD_MISMATCH
  | WITHDRAW_DONE | WITHDRAW_FAILED

datatype exn =
    StorageError
  | PrismaValidationError
  | RecordNotFound
  | UniqueConstraintViolation
  | TypeError

text \<open>The calls made to the collaborators, in the order they are made.\<close>

datatype event =
    DbFindById "int option"
  | DbFindByUsername string
  | DbFindByEmail string
  | DbUpdateProfile "int option" string string string
  | DbUpdatePassword "int option" string
  | DbDelete int
  | GetCurrentUsername
  | BcryptCompare string string
  | BcryptHash string nat
  | SessionDestroy
  | RevalidateTag string
  | RevalidatePath string path_kind
  | ConsoleError string exn

record world =
  users :: "user list"
  session_id :: "int option"
  trace :: "event list"

text \<open>
  What the handlers import and this development does not define: the constants of
  \<open>ACCOUNT_VALIDATION\<close>, the regular expression behind zod's \<open>.email()\<close>, bcrypt,
  the helper \<open>getCurrentUsername\<close> of \<open>@/lib/user\<close> (it may read the session and
  the user table, answers a name, \<open>null\<close> or throws), and the datastore's own failures
  (\<open>db_fault\<close> says which calls raise a storage error).
\<close>

record env =
  MIN_LENGTH_USERNAME :: nat
  MIN_LENGTH_PASSWORD :: nat
  CONTAINS_NUMBER :: "string \<Rightarrow> bool"
  zod_email_regex :: "string \<Rightarrow> bool"
  bcrypt_compare :: "string \<Rightarrow> string \<Rightarrow> bool"
  bcrypt_hash :: "string \<Rightarrow> nat \<Rightarrow> string"
  getCurrentUsername :: "int option \<Rightarrow> user list \<Rightarrow> exn + string option"
  db_fault :: "event \<Rightarrow> bool"

text \<open>\<open>FormActionState\<close>: three optional members.\<close>

record form_action_state =
  message :: "msg option"
  fieldErrors :: "(string \<times> msg list) list option"
  formErrors :: "msg list option"

text \<open>
  A form is a finite set of named entries; an entry is a string or a file.
  \<open>formData.get\<close> answers \<open>null\<close> for a name that is absent, never \<open>undefined\<close>.
\<close>

datatype form_value = FString string | FFile

type_synonym form_data = "string \<Rightarrow> form_value option"

datatype js_value = JUndefined | JNull | JString string | JFile

definition formData_get :: "form_data \<Rightarrow> string \<Rightarrow> js_value" where
  "formData_get fd k =
     (case fd k of None \<Rightarrow> JNull | Some (FString s) \<Rightarrow> JString s | Some FFile \<Rightarrow> JFile)"

definition new_events :: "world \<Rightarrow> world \<Rightarrow> event list" where
  \<comment> \<open>the calls made between two states of one invocation\<close>
  "new_events w w' = drop (length (trace w)) (trace w')"

definition toString_opt :: "js_value \<Rightarrow> string option" where
  \<comment> \<open>\<open>v?.toString()\<close>: \<open>None\<close> is \<open>undefined\<close>\<close>
  "toString_opt v =
     (case v of JUndefined \<Rightarrow> None | JNull \<Rightarrow> None
      | JString s \<Rightarrow> Some s | JFile \<Rightarrow> Some ''[object File]'')"

subsection \<open>Effects\<close>

type_synonym 'a io = "world \<Rightarrow> (exn + 'a) \<times> world"

definition return_io :: "'a \<Rightarrow> 'a io" where
  "return_io x w = (Inr x, w)"

definition throw_io :: "exn \<Rightarrow> 'a io" where
  "throw_io e w = (Inl e, w)"

definition bind_io :: "'a io \<Rightarrow> ('a \<Rightarrow> 'b io) \<Rightarrow> 'b io" where
  "bind_io m f w = (case m w of (Inl e, w') \<Rightarrow> (Inl e, w') | (Inr x, w') \<Rightarrow> f x w')"

definition catch_io :: "'a io \<Rightarrow> (exn \<Rightarrow> 'a io) \<Rightarrow> 'a io" where
  \<comment> \<open>\<open>try { m } catch (error) { h error }\<close>\<close>
  "catch_io m h w = (case m w of (Inl e, w') \<Rightarrow> h e w' | (Inr x, w') \<Rightarrow> (Inr x, w'))"

definition log_event :: "event \<Rightarrow> world \<Rightarrow> world" where
  "log_event e w = w\<lparr>trace := trace w @ [e]\<rparr>"

subsection \<open>Collaborators\<close>

text \<open>
  The datastore is Prisma over the user table. A call is logged, then it either raises
  the storage error chosen by \<open>db_fault\<close> or does what Prisma does: \<open>findUnique\<close> answers
  the record or \<open>null\<close>, and rejects a \<open>where\<close> whose only key is \<open>undefined\<close>;
  \<open>update\<close> and \<open>delete\<close> reject when no record has the id; \<open>update\<close> rejects when
  another record holds the new email or username. bcrypt, \<open>session.destroy\<close>, the two
  invalidation functions and \<open>console.error\<close> return normally; \<open>session.destroy\<close>
  leaves the session without an id.
\<close>

definition db_findUnique_id :: "env \<Rightarrow> int option \<Rightarrow> user option io" where
  \<comment> \<open>\<open>db.user.findUnique({where: {id}})\<close>; Prisma rejects a \<open>where\<close> without a key\<close>
  "db_findUnique_id E i w =
     (let w' = log_event (DbFindById i) w in
      if db_fault E (DbFindById i) then (Inl StorageError, w')
      else case i of
             None \<Rightarrow> (Inl PrismaValidationError, w')
           | Some k \<Rightarrow> (Inr (find (\<lambda>u. user_id u = k) (users w)), w'))"

definition db_findUnique_username :: "env \<Rightarrow> string \<Rightarrow> user option io" where
  "db_findUnique_username E n w =
     (let w' = log_event (DbFindByUsername n) w in
      if db_fault E (DbFindByUsername n) then (Inl StorageError, w')
      else (Inr (find (\<lambda>u. user_username u = n) (users w)), w'))"

definition db_findUnique_email :: "env \<Rightarrow> string \<Rightarrow> user option io" where
  "db_findUnique_email E m w =
     (let w' = log_event (DbFindByEmail m) w in
      if db_fault E (DbFindByEmail m) then (Inl StorageError, w')
      else (Inr (find (\<lambda>u. user_email u = m) (users w)), w'))"

definition db_update_profile :: "env \<Rightarrow> int option \<Rightarrow> string \<Rightarrow> string \<Rightarrow> string \<Rightarrow> unit io" where
  \<comment> \<open>\<open>db.user.update({where: {id}, data: {email, username, bio}})\<close>\<close>
  "db_update_profile E i m n b w =
     (let w' = log_event (DbUpdateProfile i m n b) w in
      if db_fault E (DbUpdateProfile i m n b) then (Inl StorageError, w')
      else case i of
             None \<Rightarrow> (Inl PrismaValidationError, w')
           | Some k \<Rightarrow>
               if find (\<lambda>u. user_id u = k) (users w) = None then (Inl RecordNotFound, w')
               else if \<exists>u \<in> set (users w). user_id u \<noteq> k \<and> (user_email u = m \<or> user_username u = n)
               then (Inl UniqueConstraintViolation, w')
               else (Inr (),
                     w'\<lparr>users := map (\<lambda>u. if user_id u = k
                                          then u\<lparr>user_email := m, user_username := n, user_bio := Some b\<rparr>
                                          else u) (users w)\<rparr>))"

definition db_update_password :: "env \<Rightarrow> int option \<Rightarrow> string \<Rightarrow> unit io" where
  "db_update_password E i h w =
     (let w' = log_event (DbUpdatePassword i h) w in
      if db_fault E (DbUpdatePassword i h) then (Inl StorageError, w')
      else case i of
             None \<Rightarrow> (Inl PrismaValidationError, w')
           | Some k \<Rightarrow>
               if find (\<lambda>u. user_id u = k) (users w) = None then (Inl RecordNotFound, w')
               else (Inr (),
                     w'\<lparr>users := map (\<lambda>u. if user_id u = k then u\<lparr>user_password := h\<rparr> else u)
                                     (users w)\<rparr>))"

definition db_delete :: "env \<Rightarrow> int \<Rightarrow> unit io" where
  "db_delete E k w =
     (let w' = log_event (DbDelete k) w in
      if db_fault E (DbDelete k) then (Inl StorageError, w')
      else if find (\<lambda>u. user_id u = k) (users w) = None then (Inl RecordNotFound, w')
      else (Inr (), w'\<lparr>users := filter (\<lambda>u. user_id u \<noteq> k) (users w)\<rparr>))"

definition call_getCurrentUsername :: "env \<Rightarrow> string option io" where
  "call_getCurrentUsername E w =
     (getCurrentUsername E (session_id w) (users w), log_event GetCurrentUsername w)"

definition call_bcrypt_compare :: "env \<Rightarrow> string \<Rightarrow> string \<Rightarrow> bool io" where
  "call_bcrypt_compare E p h w = (Inr (bcrypt_compare E p h), log_event (BcryptCompare p h) w)"

definition call_bcrypt_hash :: "env \<Rightarrow> string \<Rightarrow> nat \<Rightarrow> string io" where
  "call_bcrypt_hash E p c w = (Inr (bcrypt_hash E p c), log_event (BcryptHash p c) w)"

definition session_destroy :: "unit io" where
  "session_destroy w = (Inr (), (log_event SessionDestroy w)\<lparr>session_id := None\<rparr>)"

definition revalidateTag :: "string \<Rightarrow> unit io" where
  "revalidateTag t w = (Inr (), log_event (RevalidateTag t) w)"

definition revalidatePath :: "string \<Rightarrow> path_kind \<Rightarrow> unit io" where
  "revalidatePath p k w = (Inr (), log_event (RevalidatePath p k) w)"

definition console_error :: "string \<Rightarrow> exn \<Rightarrow> unit io" where
  "console_error s e w = (Inr (), log_event (ConsoleError s e) w)"

definition getSession :: "int option io" where
  \<comment> \<open>the handlers read only \<open>session.id\<close>\<close>
  "getSession w = (Inr (session_id w), w)"

subsection \<open>zod\<close>

text \<open>
  The part of zod 3 the two schemas use. A string schema first tests the type: a value
  that is not a string adds one issue and aborts the field. Otherwise the checks run in
  the order they were chained; a failed check adds an issue and parsing goes on, and
  \<open>trim\<close> and \<open>toLowerCase\<close> replace the value seen by the checks after them. An
  object parses all its fields, and is aborted when one of them is. A refinement runs
  unless the schema under it was aborted. Parsing succeeds when no issue was added.
\<close>

type_synonym issue = "string list \<times> msg"

datatype check =
    CheckMin nat msg
  | CheckEmail "string \<Rightarrow> bool" msg
  | CheckRegex "string \<Rightarrow> bool" msg
  | CheckTrim
  | CheckToLowerCase

fun run_checks :: "string list \<Rightarrow> check list \<Rightarrow> string \<Rightarrow> issue list \<times> string" where
  "run_checks p [] s = ([], s)"
| "run_checks p (CheckMin n m # cs) s =
     (let (iss, s') = run_checks p cs s in ((if length s < n then [(p, m)] else []) @ iss, s'))"
| "run_checks p (CheckEmail re m # cs) s =
     (let (iss, s') = run_checks p cs s in ((if \<not> re s then [(p, m)] else []) @ iss, s'))"
| "run_checks p (CheckRegex re m # cs) s =
     (let (iss, s') = run_checks p cs s in ((if \<not> re s then [(p, m)] else []) @ iss, s'))"
| "run_checks p (CheckTrim # cs) s = run_checks p cs (trim s)"
| "run_checks p (CheckToLowerCase # cs) s = run_checks p cs (toLowerCase s)"

definition zod_string ::
  "msg option \<Rightarrow> msg option \<Rightarrow> check list \<Rightarrow> string list \<Rightarrow> js_value \<Rightarrow> issue list \<times> string option" where
  \<comment> \<open>\<open>z.string({required_error, invalid_type_error})\<close> followed by the checks;
      the second component is \<open>None\<close> when the field is aborted\<close>
  "zod_string required_error invalid_type_error cs p v =
     (case v of
        JString s \<Rightarrow> (let (iss, s') = run_checks p cs s in (iss, Some s'))
      | JUndefined \<Rightarrow>
          ([(p, case required_error of Some m \<Rightarrow> m | None \<Rightarrow> ZOD_EXPECTED_STRING)], None)
      | _ \<Rightarrow>
          ([(p, case invalid_type_error of Some m \<Rightarrow> m | None \<Rightarrow> ZOD_EXPECTED_STRING)], None))"

datatype 'a safe_parse = Success 'a | Failure "issue list"

fun add_field_error :: "string \<Rightarrow> msg \<Rightarrow> (string \<times> msg list) list \<Rightarrow> (string \<times> msg list) list" where
  "add_field_error k m [] = [(k, [m])]"
| "add_field_error k m ((k', ms) # fe) =
     (if k = k' then (k', ms @ [m]) # fe else (k', ms) # add_field_error k m fe)"

definition flatten :: "issue list \<Rightarrow> form_action_state" where
  \<comment> \<open>\<open>error.flatten()\<close>: an issue with a path goes under the path's first key,
      one without goes to \<open>formErrors\<close>; both members are always present\<close>
  "flatten iss =
     \<lparr>message = None,
      fieldErrors =
        Some (foldl (\<lambda>fe (p, m). case p of [] \<Rightarrow> fe | k # _ \<Rightarrow> add_field_error k m fe) [] iss),
      formErrors = Some (map snd (filter (\<lambda>(p, m). p = []) iss))\<rparr>"

subsection \<open>profileUpdateSchema\<close>

record profile_data =
  pd_email :: string
  pd_username :: string
  pd_bio :: string

definition profile_fields :: "env \<Rightarrow> js_value \<Rightarrow> js_value \<Rightarrow> issue list \<times> string option \<times> string option" where
  \<comment> \<open>the \<open>z.object\<close> part; \<open>bio\<close> is always a string when the handler calls the schema,
      and \<open>z.string().optional()\<close> has no check\<close>
  "profile_fields E email username =
     (let (i1, v1) = zod_string (Some EMAIL_REQUIRED) (Some EMAIL_INVALID_TYPE)
                       [CheckEmail (zod_email_regex E) EMAIL_INVALID_FORMAT, CheckTrim, CheckToLowerCase]
                       [''email''] email;
          (i2, v2) = zod_string (Some USERNAME_REQUIRED) (Some USERNAME_INVALID_TYPE)
                       [CheckMin (MIN_LENGTH_USERNAME E) USERNAME_TOO_SHORT, CheckTrim]
                       [''username''] username
      in (i1 @ i2, v1, v2))"

definition check_username_unique :: "env \<Rightarrow> string \<Rightarrow> user option \<Rightarrow> issue list io" where
  "check_username_unique E username currentUser =
     (if Some username \<noteq> map_option user_username currentUser
      then bind_io (db_findUnique_username E username) (\<lambda>existingUsername.
             return_io (if existingUsername \<noteq> None then [([''username''], USERNAME_DUPLICATE)] else []))
      else return_io [])"

definition check_email_unique :: "env \<Rightarrow> string \<Rightarrow> user option \<Rightarrow> issue list io" where
  "check_email_unique E email currentUser =
     (if Some email \<noteq> map_option user_email currentUser
      then bind_io (db_findUnique_email E email) (\<lambda>existingEmail.
             return_io (if existingEmail \<noteq> None then [([''email''], EMAIL_DUPLICATE)] else []))
      else return_io [])"

definition profile_superRefine :: "env \<Rightarrow> string \<Rightarrow> string \<Rightarrow> issue list io" where
  "profile_superRefine E email username =
     bind_io getSession (\<lambda>sid.
     bind_io (db_findUnique_id E sid) (\<lambda>currentUser.
     bind_io (check_username_unique E username currentUser) (\<lambda>i1.
     bind_io (check_email_unique E email currentUser) (\<lambda>i2.
     return_io (i1 @ i2)))))"

definition profileUpdateSchema_safeParseAsync ::
  "env \<Rightarrow> js_value \<Rightarrow> js_value \<Rightarrow> string \<Rightarrow> profile_data safe_parse io" where
  "profileUpdateSchema_safeParseAsync E email username bio =
     (case profile_fields E email username of
        (iss, Some e, Some u) \<Rightarrow>
          bind_io (profile_superRefine E e u) (\<lambda>rs.
            return_io (if iss @ rs = []
                       then Success \<lparr>pd_email = e, pd_username = u, pd_bio = bio\<rparr>
                       else Failure (iss @ rs)))
      | (iss, _, _) \<Rightarrow> return_io (Failure iss))"

subsection \<open>passwordUpdateSchema\<close>

record password_data =
  pw_currentPassword :: string
  pw_newPassword :: string
  pw_confirmPassword :: string

definition passwordUpdateSchema_safeParse ::
  "env \<Rightarrow> js_value \<Rightarrow> js_value \<Rightarrow> js_value \<Rightarrow> password_data safe_parse" where
  "passwordUpdateSchema_safeParse E currentPassword newPassword confirmPassword =
     (let (i1, v1) = zod_string (Some CURRENT_PASSWORD_REQUIRED) None [] [''currentPassword'']
                       currentPassword;
          (i2, v2) = zod_string (Some PASSWORD_REQUIRED) (Some PASSWORD_INVALID_TYPE)
                       [CheckMin (MIN_LENGTH_PASSWORD E) PASSWORD_TOO_SHORT,
                        CheckRegex (CONTAINS_NUMBER E) PASSWORD_NO_NUMBER]
                       [''newPassword''] newPassword;
          (i3, v3) = zod_string None None
                       [CheckMin (MIN_LENGTH_PASSWORD E) PASSWORD_TOO_SHORT]
                       [''confirmPassword''] confirmPassword;
          iss = i1 @ i2 @ i3
      in case (v1, v2, v3) of
           (Some c, Some n, Some f) \<Rightarrow>
             (let rs = (if n = f then [] else [([''confirmPassword''], PASSWORD_CONFIRM)])
              in if iss @ rs = []
                 then Success \<lparr>pw_currentPassword = c, pw_newPassword = n, pw_confirmPassword = f\<rparr>
                 else Failure (iss @ rs))
         | _ \<Rightarrow> Failure iss)"

subsection \<open>The handlers\<close>

definition result_message :: "msg \<Rightarrow> form_action_state" where
  "result_message m = \<lparr>message = Some m, fieldErrors = None, formErrors = None\<rparr>"

definition result_fieldErrors :: "string \<Rightarrow> msg \<Rightarrow> form_action_state" where
  "result_fieldErrors k m = \<lparr>message = None, fieldErrors = Some [(k, [m])], formErrors = None\<rparr>"

definition result_formErrors :: "msg \<Rightarrow> form_action_state" where
  "result_formErrors m = \<lparr>message = None, fieldErrors = None, formErrors = Some [m]\<rparr>"

definition revalidate_username_change :: "string option \<Rightarrow> string \<Rightarrow> unit io" where
  \<comment> \<open>the body of \<open>if (oldUsername !== newUsername)\<close>; \<open>if (oldUsername)\<close> is false
      for \<open>null\<close> and for the empty string\<close>
  "revalidate_username_change oldUsername newUsername =
     bind_io (revalidatePath ''/'' Layout) (\<lambda>_.
     bind_io (case oldUsername of
                Some old \<Rightarrow>
                  if old \<noteq> [] then revalidatePath (''/users/'' @ encodeURIComponent old) Page
                  else return_io ()
              | None \<Rightarrow> return_io ()) (\<lambda>_.
     bind_io (revalidatePath (''/users/'' @ encodeURIComponent newUsername) Page) (\<lambda>_.
     bind_io (revalidatePath ''/tweets'' Layout) (\<lambda>_.
     revalidatePath ''/search'' Page))))"

definition coerce_bio :: "js_value \<Rightarrow> string" where
  \<comment> \<open>\<open>formData.get('bio')?.toString() || ''\<close>\<close>
  "coerce_bio v = (case toString_opt v of None \<Rightarrow> [] | Some s \<Rightarrow> s)"

definition updateProfile_try :: "env \<Rightarrow> int option \<Rightarrow> profile_data \<Rightarrow> form_action_state io" where
  "updateProfile_try E userId d =
     bind_io (call_getCurrentUsername E) (\<lambda>oldUsername.
     let newUsername = pd_username d in
     bind_io (db_update_profile E userId (pd_email d) (pd_username d) (pd_bio d)) (\<lambda>_.
     bind_io (revalidateTag ''user-profile'') (\<lambda>_.
     bind_io (if oldUsername \<noteq> Some newUsername
              then revalidate_username_change oldUsername newUsername
              else return_io ()) (\<lambda>_.
     return_io (result_message PROFILE_UPDATED)))))"

definition updateProfile :: "env \<Rightarrow> form_data \<Rightarrow> form_action_state io" where
  "updateProfile E formData =
     bind_io getSession (\<lambda>userId.
     let email = formData_get formData ''email'';
         username = formData_get formData ''username'';
         bio = coerce_bio (formData_get formData ''bio'')
     in
     bind_io (profileUpdateSchema_safeParseAsync E email username bio) (\<lambda>result.
     case result of
       Failure iss \<Rightarrow> return_io (flatten iss)
     | Success d \<Rightarrow>
         catch_io (updateProfile_try E userId d) (\<lambda>error.
           bind_io (console_error ''Profile update error:'' error) (\<lambda>_.
           return_io (result_formErrors PROFILE_UPDATE_FAILED)))))"

definition updatePassword_commit :: "env \<Rightarrow> int option \<Rightarrow> string \<Rightarrow> form_action_state io" where
  "updatePassword_commit E userId hashedNewPassword =
     catch_io
       (bind_io (db_update_password E userId hashedNewPassword) (\<lambda>_.
        return_io (result_message PASSWORD_UPDATED)))
       (\<lambda>error.
        bind_io (console_error ''Password update error:'' error) (\<lambda>_.
        return_io (result_formErrors PASSWORD_UPDATE_FAILED)))"

definition updatePassword :: "env \<Rightarrow> form_data \<Rightarrow> form_action_state io" where
  "updatePassword E formData =
     bind_io getSession (\<lambda>userId.
     case passwordUpdateSchema_safeParse E (formData_get formData ''currentPassword'')
            (formData_get formData ''newPassword'') (formData_get formData ''confirmPassword'') of
       Failure iss \<Rightarrow> return_io (flatten iss)
     | Success d \<Rightarrow>
         bind_io (db_findUnique_id E userId) (\<lambda>user.
         case user of
           None \<Rightarrow> throw_io TypeError
         | Some u \<Rightarrow>
             bind_io (call_bcrypt_compare E (pw_currentPassword d) (user_password u))
               (\<lambda>currentPasswordMatches.
             if \<not> currentPasswordMatches
             then return_io (result_fieldErrors ''currentPassword'' CURRENT_PASSWORD_MISMATCH)
             else bind_io (call_bcrypt_hash E (pw_newPassword d) 12) (\<lambda>hashedNewPassword.
                  updatePassword_commit E userId hashedNewPassword))))"

definition withdrawUser_try :: "env \<Rightarrow> int \<Rightarrow> string \<Rightarrow> form_action_state io" where
  "withdrawUser_try E userId password =
     bind_io (db_findUnique_id E (Some userId)) (\<lambda>user.
     case user of
       None \<Rightarrow> return_io (result_formErrors USER_NOT_FOUND)
     | Some u \<Rightarrow>
         bind_io (call_bcrypt_compare E password (user_password u)) (\<lambda>passwordMatches.
         if \<not> passwordMatches
         then return_io (result_fieldErrors ''password'' PASSWORD_MISMATCH)
         else bind_io (db_delete E userId) (\<lambda>_.
              bind_io session_destroy (\<lambda>_.
              return_io (result_message WITHDRAW_DONE)))))"

definition withdrawUser :: "env \<Rightarrow> form_data \<Rightarrow> form_action_state io" where
  \<comment> \<open>\<open>!userId\<close> holds for \<open>undefined\<close> and for \<open>0\<close>, \<open>!password\<close> for \<open>undefined\<close>
      and for the empty string\<close>
  "withdrawUser E formData =
     bind_io getSession (\<lambda>sid.
     case sid of
       None \<Rightarrow> return_io (result_formErrors LOGIN_REQUIRED)
     | Some userId \<Rightarrow>
         if userId = 0 then return_io (result_formErrors LOGIN_REQUIRED)
         else (case toString_opt (formData_get formData ''password'') of
                 None \<Rightarrow> return_io (result_fieldErrors ''password'' ENTER_PASSWORD)
               | Some password \<Rightarrow>
                   if password = [] then return_io (result_fieldErrors ''password'' ENTER_PASSWORD)
                   else catch_io (withdrawUser_try E userId password) (\<lambda>error.
                          bind_io (console_error ''User withdrawal error:'' error) (\<lambda>_.
                          return_io (result_formErrors WITHDRAW_FAILED)))))"

definition current_user :: "world \<Rightarrow> user option" where
  \<comment> \<open>the record of the session's user, when there is one\<close>
  "current_user w =
     (case session_id w of None \<Rightarrow> None | Some i \<Rightarrow> find (\<lambda>u. user_id u = i) (users w))"

definition is_invalidation :: "event \<Rightarrow> bool" where
  \<comment> \<open>the calls to \<open>revalidateTag\<close> and \<open>revalidatePath\<close>\<close>
  "is_invalidation e =
     (case e of RevalidateTag _ \<Rightarrow> True | RevalidatePath _ _ \<Rightarrow> True | _ \<Rightarrow> False)"

definition is_lookup :: "event \<Rightarrow> bool" where
  \<comment> \<open>the point lookups by \<open>username\<close> and by \<open>email\<close>\<close>
  "is_lookup e =
     (case e of DbFindByUsername _ \<Rightarrow> True | DbFindByEmail _ \<Rightarrow> True | _ \<Rightarrow> False)"

subsection \<open>An example installation\<close>

text \<open>
  Two users, the first one logged in. The stand-ins for bcrypt and for the two regular
  expressions are only used to run the handlers on concrete requests.
\<close>

definition example_bob :: user where
  "example_bob = \<lparr>user_id = 1, user_email = ''bob@x.com'', user_username = ''bob'',
                   user_bio = Some ''hello'', user_password = ''H(pw1)''\<rparr>"

definition example_carol :: user where
  "example_carol = \<lparr>user_id = 2, user_email = ''carol@x.com'', user_username = ''carol'',
                     user_bio = None, user_password = ''H(pw2)''\<rparr>"

definition example_world :: world where
  "example_world = \<lparr>users = [example_bob, example_carol], session_id = Some 1, trace = []\<rparr>"

definition example_env :: env where
  "example_env =
     \<lparr>MIN_LENGTH_USERNAME = 3,
      MIN_LENGTH_PASSWORD = 4,
      CONTAINS_NUMBER = list_ex (\<lambda>c. c \<in> set ''0123456789''),
      zod_email_regex = (\<lambda>s. CHR ''@'' \<in> set s),
      bcrypt_compare = (\<lambda>p h. h = ''H('' @ p @ '')''),
      bcrypt_hash = (\<lambda>p c. ''H('' @ p @ '')''),
      getCurrentUsername = (\<lambda>sid us. Inr (case sid of None \<Rightarrow> None
                               | Some i \<Rightarrow> map_option user_username (find (\<lambda>u. user_id u = i) us))),
      db_fault = (\<lambda>_. False)\<rparr>"

definition fd_rename :: form_data where
  "fd_rename = [''email'' \<mapsto> FString ''Bob@X.com'', ''username'' \<mapsto> FString '' robert '']"

definition fd_same :: form_data where
  "fd_same = [''email'' \<mapsto> FString ''Bob@X.com '', ''username'' \<mapsto> FString ''bob'']"

definition fd_scenario :: form_data where
  "fd_scenario = [''email'' \<mapsto> FString ''A@X.com'', ''username'' \<mapsto> FString ''bob'',
                  ''bio'' \<mapsto> FString []]"


subsection \<open>Populated outcomes\<close>







section \<open>Properties\<close>

lemmas io_defs = return_io_def throw_io_def bind_io_def catch_io_def log_event_def getSession_def

lemmas example_defs = example_bob_def example_carol_def example_world_def example_env_def

subsection \<open>withdrawUser\<close>

text \<open>
  C1. In \<open>withdrawUser\<close>, with an authenticated actor (a session id that is not falsy), a
  non-empty password, a user record that the lookup finds and a password that matches
  the stored hash: when the delete succeeds the calls made are exactly lookup, compare,
  delete, \<open>session.destroy\<close>, in this order, the record is gone and the success message
  is returned; when the delete raises, \<open>session.destroy\<close> is not called, the error is
  logged, the user table and the session are untouched and the generic form error is
  returned.
\<close>

theorem withdrawUser_delete_then_destroy:
  assumes "session_id w = Some i" and "i \<noteq> 0"
      and "toString_opt (formData_get formData ''password'') = Some p" and "p \<noteq> []"
      and "\<not> db_fault E (DbFindById (Some i))"
      and "find (\<lambda>u. user_id u = i) (users w) = Some u"
      and "bcrypt_compare E p (user_password u)"
  shows "(\<not> db_fault E (DbDelete i) \<longrightarrow>
            withdrawUser E formData w =
              (Inr (result_message WITHDRAW_DONE),
               w\<lparr>users := filter (\<lambda>u. user_id u \<noteq> i) (users w),
                 session_id := None,
                 trace := trace w @ [DbFindById (Some i), BcryptCompare p (user_password u),
                                     DbDelete i, SessionDestroy]\<rparr>))
       \<and> (db_fault E (DbDelete i) \<longrightarrow>
            withdrawUser E formData w =
              (Inr (result_formErrors WITHDRAW_FAILED),
               w\<lparr>trace := trace w @ [DbFindById (Some i), BcryptCompare p (user_password u),
                                     DbDelete i,
                                     ConsoleError ''User withdrawal error:'' StorageError]\<rparr>))"
  using assms
  by (simp add: withdrawUser_def withdrawUser_try_def io_defs db_findUnique_id_def
        call_bcrypt_compare_def db_delete_def session_destroy_def console_error_def)

theorem withdrawUser_delete_then_destroy_witness:
  "withdrawUser example_env [''password'' \<mapsto> FString ''pw1''] example_world =
     (Inr (result_message WITHDRAW_DONE),
      \<lparr>users = [example_carol], session_id = None,
       trace = [DbFindById (Some 1), BcryptCompare ''pw1'' ''H(pw1)'', DbDelete 1, SessionDestroy]\<rparr>)
   \<and> withdrawUser (example_env\<lparr>db_fault := (\<lambda>e. e = DbDelete 1)\<rparr>)
        [''password'' \<mapsto> FString ''pw1''] example_world =
     (Inr (result_formErrors WITHDRAW_FAILED),
      \<lparr>users = [example_bob, example_carol], session_id = Some 1,
       trace = [DbFindById (Some 1), BcryptCompare ''pw1'' ''H(pw1)'', DbDelete 1,
                ConsoleError ''User withdrawal error:'' StorageError]\<rparr>)"
  using withdrawUser_delete_then_destroy
          [of example_world 1 "[''password'' \<mapsto> FString ''pw1'']" "''pw1''" example_env example_bob]
        withdrawUser_delete_then_destroy
          [of example_world 1 "[''password'' \<mapsto> FString ''pw1'']" "''pw1''"
              "example_env\<lparr>db_fault := (\<lambda>e. e = DbDelete 1)\<rparr>" example_bob]
  by (simp add: example_defs formData_get_def toString_opt_def)

text \<open>
  C8. In \<open>withdrawUser\<close>, with an authenticated actor and a \<open>password\<close> entry that is
  absent or the empty string, the handler returns the field error on \<open>password\<close> and
  leaves the world as it was: no call to the datastore (or to any other collaborator)
  is made.
\<close>

theorem withdrawUser_empty_password_no_read:
  assumes "session_id w = Some i" and "i \<noteq> 0"
      and "formData ''password'' = None \<or> formData ''password'' = Some (FString [])"
  shows "withdrawUser E formData w = (Inr (result_fieldErrors ''password'' ENTER_PASSWORD), w)"
  using assms
  by (auto simp: withdrawUser_def io_defs formData_get_def toString_opt_def)

theorem withdrawUser_empty_password_no_read_witness:
  "withdrawUser example_env [''password'' \<mapsto> FString []] example_world =
     (Inr (result_fieldErrors ''password'' ENTER_PASSWORD), example_world)
   \<and> withdrawUser example_env Map.empty example_world =
     (Inr (result_fieldErrors ''password'' ENTER_PASSWORD), example_world)
   \<and> trace example_world = []"
  using withdrawUser_empty_password_no_read
          [of example_world 1 "[''password'' \<mapsto> FString []]" example_env]
        withdrawUser_empty_password_no_read [of example_world 1 Map.empty example_env]
  by (simp add: example_world_def)

subsection \<open>updatePassword\<close>

text \<open>
  C4. In \<open>updatePassword\<close>, when the form passes \<open>passwordUpdateSchema\<close>, the actor's
  record is found and the supplied current password does not match the stored hash,
  the handler returns the field error on \<open>currentPassword\<close>; the only calls made are the
  lookup and the comparison, so neither \<open>bcrypt.hash\<close> nor \<open>db.user.update\<close> is reached
  and the user table is unchanged.
\<close>

theorem updatePassword_mismatch_no_mutation:
  assumes "passwordUpdateSchema_safeParse E (formData_get formData ''currentPassword'')
             (formData_get formData ''newPassword'') (formData_get formData ''confirmPassword'')
           = Success d"
      and "session_id w = Some i"
      and "\<not> db_fault E (DbFindById (Some i))"
      and "find (\<lambda>u. user_id u = i) (users w) = Some u"
      and "\<not> bcrypt_compare E (pw_currentPassword d) (user_password u)"
  shows "updatePassword E formData w =
           (Inr (result_fieldErrors ''currentPassword'' CURRENT_PASSWORD_MISMATCH),
            w\<lparr>trace := trace w @ [DbFindById (Some i),
                                  BcryptCompare (pw_currentPassword d) (user_password u)]\<rparr>)"
  using assms
  by (simp add: updatePassword_def io_defs db_findUnique_id_def call_bcrypt_compare_def)

theorem updatePassword_mismatch_no_mutation_witness:
  "updatePassword example_env
     [''currentPassword'' \<mapsto> FString ''wrong'', ''newPassword'' \<mapsto> FString ''abcd1'',
      ''confirmPassword'' \<mapsto> FString ''abcd1''] example_world =
     (Inr (result_fieldErrors ''currentPassword'' CURRENT_PASSWORD_MISMATCH),
      \<lparr>users = [example_bob, example_carol], session_id = Some 1,
       trace = [DbFindById (Some 1), BcryptCompare ''wrong'' ''H(pw1)'']\<rparr>)"
  using updatePassword_mismatch_no_mutation
          [of example_env
              "[''currentPassword'' \<mapsto> FString ''wrong'', ''newPassword'' \<mapsto> FString ''abcd1'',
                ''confirmPassword'' \<mapsto> FString ''abcd1'']"
              "\<lparr>pw_currentPassword = ''wrong'', pw_newPassword = ''abcd1'',
                pw_confirmPassword = ''abcd1''\<rparr>"
              example_world 1 example_bob]
  by (simp add: example_defs formData_get_def passwordUpdateSchema_safeParse_def zod_string_def)

text \<open>
  C7. In \<open>updatePassword\<close>, when \<open>currentPassword\<close> is a string, \<open>newPassword\<close> is a string
  that is long enough and contains a digit, and \<open>confirmPassword\<close> is anything but that
  same string, validation fails: the result carries errors under \<open>confirmPassword\<close> and
  under no other field, no form-level error, and no collaborator is called.
\<close>

theorem updatePassword_confirm_mismatch:
  assumes "formData ''currentPassword'' = Some (FString c)"
      and "formData ''newPassword'' = Some (FString n)"
      and "MIN_LENGTH_PASSWORD E \<le> length n" and "CONTAINS_NUMBER E n"
      and "formData ''confirmPassword'' \<noteq> Some (FString n)"
  shows "\<exists>ms. ms \<noteq> [] \<and>
           updatePassword E formData w =
             (Inr \<lparr>message = None, fieldErrors = Some [(''confirmPassword'', ms)],
                   formErrors = Some []\<rparr>, w)"
proof (cases "formData ''confirmPassword''")
  case None
  with assms show ?thesis
    by (simp add: updatePassword_def io_defs passwordUpdateSchema_safeParse_def zod_string_def
          formData_get_def flatten_def)
next
  case (Some v)
  show ?thesis
  proof (cases v)
    case FFile
    with Some assms show ?thesis
      by (simp add: updatePassword_def io_defs passwordUpdateSchema_safeParse_def zod_string_def
            formData_get_def flatten_def)
  next
    case (FString f)
    with Some assms have "f \<noteq> n" by simp
    with FString Some assms show ?thesis
      by (simp add: updatePassword_def io_defs passwordUpdateSchema_safeParse_def zod_string_def
            formData_get_def flatten_def)
  qed
qed

theorem updatePassword_confirm_mismatch_witness:
  "\<exists>ms. ms \<noteq> [] \<and>
     updatePassword example_env
       [''currentPassword'' \<mapsto> FString ''pw1'', ''newPassword'' \<mapsto> FString ''abcd1'',
        ''confirmPassword'' \<mapsto> FString ''abcd2''] example_world =
       (Inr \<lparr>message = None, fieldErrors = Some [(''confirmPassword'', ms)],
             formErrors = Some []\<rparr>, example_world)"
  using updatePassword_confirm_mismatch
          [of "[''currentPassword'' \<mapsto> FString ''pw1'', ''newPassword'' \<mapsto> FString ''abcd1'',
                ''confirmPassword'' \<mapsto> FString ''abcd2'']"
              "''pw1''" "''abcd1''" example_env example_world]
  by (simp add: example_env_def)

text \<open>
  C9. In \<open>updatePassword\<close>, when the form passes validation and there is no user record
  for the session's id (no session id at all, or the id of a record that is gone), the
  handler rejects with an exception instead of returning a result, and changes no
  user record. With a stale id and a lookup that succeeds the exception is the
  \<open>TypeError\<close> of \<open>user!.password\<close>, raised before \<open>bcrypt.compare\<close> is called. With the
  same missing session \<open>withdrawUser\<close> returns its login-required form error.
\<close>

theorem updatePassword_missing_user_throws:
  assumes "passwordUpdateSchema_safeParse E (formData_get formData ''currentPassword'')
             (formData_get formData ''newPassword'') (formData_get formData ''confirmPassword'')
           = Success d"
      and "current_user w = None"
  shows "(\<exists>e. fst (updatePassword E formData w) = Inl e)
       \<and> (session_id w \<noteq> None \<and> \<not> db_fault E (DbFindById (session_id w)) \<longrightarrow>
            updatePassword E formData w =
              (Inl TypeError, w\<lparr>trace := trace w @ [DbFindById (session_id w)]\<rparr>))
       \<and> users (snd (updatePassword E formData w)) = users w
       \<and> (session_id w = None \<longrightarrow>
            withdrawUser E formData' w = (Inr (result_formErrors LOGIN_REQUIRED), w))"
  using assms
  by (auto simp: updatePassword_def withdrawUser_def io_defs db_findUnique_id_def current_user_def
        Let_def split: option.splits)

theorem updatePassword_missing_user_throws_witness:
  "updatePassword example_env
     [''currentPassword'' \<mapsto> FString ''pw1'', ''newPassword'' \<mapsto> FString ''abcd1'',
      ''confirmPassword'' \<mapsto> FString ''abcd1''] (example_world\<lparr>session_id := Some 7\<rparr>) =
     (Inl TypeError,
      \<lparr>users = [example_bob, example_carol], session_id = Some 7, trace = [DbFindById (Some 7)]\<rparr>)
   \<and> (\<exists>e. fst (updatePassword example_env
                [''currentPassword'' \<mapsto> FString ''pw1'', ''newPassword'' \<mapsto> FString ''abcd1'',
                 ''confirmPassword'' \<mapsto> FString ''abcd1'']
                (example_world\<lparr>session_id := None\<rparr>)) = Inl e)
   \<and> withdrawUser example_env [''password'' \<mapsto> FString ''pw1'']
        (example_world\<lparr>session_id := None\<rparr>) =
     (Inr (result_formErrors LOGIN_REQUIRED), example_world\<lparr>session_id := None\<rparr>)"
  using updatePassword_missing_user_throws
          [of example_env
              "[''currentPassword'' \<mapsto> FString ''pw1'', ''newPassword'' \<mapsto> FString ''abcd1'',
                ''confirmPassword'' \<mapsto> FString ''abcd1'']"
              "\<lparr>pw_currentPassword = ''pw1'', pw_newPassword = ''abcd1'',
                pw_confirmPassword = ''abcd1''\<rparr>"
              "example_world\<lparr>session_id := Some 7\<rparr>" "[''password'' \<mapsto> FString ''pw1'']"]
        updatePassword_missing_user_throws
          [of example_env
              "[''currentPassword'' \<mapsto> FString ''pw1'', ''newPassword'' \<mapsto> FString ''abcd1'',
                ''confirmPassword'' \<mapsto> FString ''abcd1'']"
              "\<lparr>pw_currentPassword = ''pw1'', pw_newPassword = ''abcd1'',
                pw_confirmPassword = ''abcd1''\<rparr>"
              "example_world\<lparr>session_id := None\<rparr>" "[''password'' \<mapsto> FString ''pw1'']"]
  by (simp add: example_defs current_user_def formData_get_def passwordUpdateSchema_safeParse_def
        zod_string_def)

subsection \<open>updateProfile: the validation and the commit, step by step\<close>

lemma profile_fields_Some:
  assumes "profile_fields E (formData_get formData ''email'') (formData_get formData ''username'')
           = (iss, Some e, Some n)"
  shows "\<exists>e0 n0. formData ''email'' = Some (FString e0) \<and> e = toLowerCase (trim e0)
        \<and> formData ''username'' = Some (FString n0) \<and> n = trim n0"
  using assms
  by (auto simp: profile_fields_def zod_string_def formData_get_def
        split: option.splits form_value.splits prod.splits)


lemma superRefine_trace:
  assumes "profile_superRefine E e n w = (r, w1)"
  shows "users w1 = users w \<and> session_id w1 = session_id w \<and>
         (\<exists>es. trace w1 = trace w @ DbFindById (session_id w) # es \<and>
               set es \<subseteq> {DbFindByUsername n, DbFindByEmail e} \<and>
               (\<forall>u. current_user w = Some u \<longrightarrow>
                  (DbFindByUsername n \<in> set es \<longrightarrow> n \<noteq> user_username u) \<and>
                  (DbFindByEmail e \<in> set es \<longrightarrow> e \<noteq> user_email u)))"
  using assms
  by (auto simp: profile_superRefine_def current_user_def
        check_username_unique_def check_email_unique_def io_defs db_findUnique_id_def
        db_findUnique_username_def db_findUnique_email_def Let_def
        split: option.splits prod.splits if_splits sum.splits)



lemma safeParse_Success:
  assumes "profileUpdateSchema_safeParseAsync E em un b w = (Inr (Success d), w1)"
  shows "\<exists>e n. profile_fields E em un = ([], Some e, Some n) \<and>
           profile_superRefine E e n w = (Inr [], w1) \<and>
           d = \<lparr>pd_email = e, pd_username = n, pd_bio = b\<rparr>"
proof -
  obtain iss ve vn where pf: "profile_fields E em un = (iss, ve, vn)"
    by (cases "profile_fields E em un") auto
  show ?thesis
  proof (cases "ve = None \<or> vn = None")
    case True
    with pf assms show ?thesis
      by (auto simp: profileUpdateSchema_safeParseAsync_def io_defs split: option.splits)
  next
    case False
    then obtain e n where "ve = Some e" "vn = Some n" by auto
    with pf assms show ?thesis
      by (auto simp: profileUpdateSchema_safeParseAsync_def io_defs
            split: sum.splits prod.splits if_splits)
  qed
qed


lemma safeParse_trace:
  assumes "profileUpdateSchema_safeParseAsync E (formData_get formData ''email'')
             (formData_get formData ''username'') b w = (q, w1)"
  shows "users w1 = users w \<and> session_id w1 = session_id w \<and>
         (\<exists>es. trace w1 = trace w @ es \<and>
            (\<forall>x \<in> set es. \<not> is_invalidation x) \<and>
            (\<forall>m. DbFindByEmail m \<in> set es \<longrightarrow>
               (\<exists>e0. formData ''email'' = Some (FString e0) \<and> m = toLowerCase (trim e0)) \<and>
               (\<forall>u. current_user w = Some u \<longrightarrow> m \<noteq> user_email u)) \<and>
            (\<forall>m. DbFindByUsername m \<in> set es \<longrightarrow>
               (\<exists>n0. formData ''username'' = Some (FString n0) \<and> m = trim n0) \<and>
               (\<forall>u. current_user w = Some u \<longrightarrow> m \<noteq> user_username u)))"
proof -
  let ?em = "formData_get formData ''email''" and ?un = "formData_get formData ''username''"
  obtain is0 ve vn where pf: "profile_fields E ?em ?un = (is0, ve, vn)"
    by (cases "profile_fields E ?em ?un") auto
  show ?thesis
  proof (cases "ve = None \<or> vn = None")
    case True
    with pf assms have "w1 = w"
      by (auto simp: profileUpdateSchema_safeParseAsync_def io_defs split: option.splits)
    then show ?thesis by simp
  next
    case False
    then obtain e n where v: "ve = Some e" "vn = Some n" by auto
    from pf v profile_fields_Some [of E formData is0 e n] obtain e0 n0 where
      f: "formData ''email'' = Some (FString e0)" "e = toLowerCase (trim e0)"
         "formData ''username'' = Some (FString n0)" "n = trim n0"
      by auto
    obtain r w2 where sr: "profile_superRefine E e n w = (r, w2)"
      by (cases "profile_superRefine E e n w") auto
    with pf v assms have "w1 = w2"
      by (auto simp: profileUpdateSchema_safeParseAsync_def io_defs split: sum.splits)
    with superRefine_trace [OF sr] obtain es where es:
      "users w1 = users w" "session_id w1 = session_id w"
      "trace w1 = trace w @ DbFindById (session_id w) # es"
      "set es \<subseteq> {DbFindByUsername n, DbFindByEmail e}"
      "\<forall>u. current_user w = Some u \<longrightarrow>
                  (DbFindByUsername n \<in> set es \<longrightarrow> n \<noteq> user_username u) \<and>
                  (DbFindByEmail e \<in> set es \<longrightarrow> e \<noteq> user_email u)"
      by auto
    have "\<forall>x \<in> set (DbFindById (session_id w) # es). \<not> is_invalidation x"
      using es(4) by (auto simp: is_invalidation_def)
    moreover have "\<forall>m. DbFindByEmail m \<in> set (DbFindById (session_id w) # es) \<longrightarrow>
               (\<exists>e0. formData ''email'' = Some (FString e0) \<and> m = toLowerCase (trim e0)) \<and>
               (\<forall>u. current_user w = Some u \<longrightarrow> m \<noteq> user_email u)"
      using es(4,5) f by auto
    moreover have "\<forall>m. DbFindByUsername m \<in> set (DbFindById (session_id w) # es) \<longrightarrow>
               (\<exists>n0. formData ''username'' = Some (FString n0) \<and> m = trim n0) \<and>
               (\<forall>u. current_user w = Some u \<longrightarrow> m \<noteq> user_username u)"
      using es(4,5) f by auto
    ultimately show ?thesis using es(1,2,3) by blast
  qed
qed

lemma revalidate_username_change_run:
  "revalidate_username_change old new w =
     (Inr (), w\<lparr>trace := trace w @
        [RevalidatePath ''/'' Layout] @
        (case old of None \<Rightarrow> []
         | Some s \<Rightarrow> if s \<noteq> [] then [RevalidatePath (''/users/'' @ encodeURIComponent s) Page] else []) @
        [RevalidatePath (''/users/'' @ encodeURIComponent new) Page,
         RevalidatePath ''/tweets'' Layout, RevalidatePath ''/search'' Page]\<rparr>)"
  by (simp add: revalidate_username_change_def revalidatePath_def io_defs split: option.splits)

lemma db_update_profile_Inr:
  assumes "db_update_profile E sid m n b w = (Inr x, w2)"
  shows "\<exists>i. sid = Some i \<and> find (\<lambda>u. user_id u = i) (users w) \<noteq> None \<and>
           w2 = w\<lparr>trace := trace w @ [DbUpdateProfile sid m n b],
                  users := map (\<lambda>u. if user_id u = i
                                    then u\<lparr>user_email := m, user_username := n, user_bio := Some b\<rparr>
                                    else u) (users w)\<rparr>"
  using assms
  by (simp add: db_update_profile_def log_event_def Let_def split: if_splits option.splits)

lemma db_update_profile_Inl:
  assumes "db_update_profile E sid m n b w = (Inl x, w2)"
  shows "w2 = w\<lparr>trace := trace w @ [DbUpdateProfile sid m n b]\<rparr>"
  using assms
  by (simp add: db_update_profile_def log_event_def Let_def split: if_splits option.splits)

lemma try_result:
  assumes "updateProfile_try E sid d w1 = (Inr r, w')"
  shows "\<exists>old i. getCurrentUsername E (session_id w1) (users w1) = Inr old \<and> sid = Some i \<and>
           find (\<lambda>u. user_id u = i) (users w1) \<noteq> None \<and>
           r = result_message PROFILE_UPDATED \<and>
           session_id w' = session_id w1 \<and>
           users w' = map (\<lambda>u. if user_id u = i
                               then u\<lparr>user_email := pd_email d, user_username := pd_username d,
                                      user_bio := Some (pd_bio d)\<rparr>
                               else u) (users w1) \<and>
           trace w' = trace w1 @
             [GetCurrentUsername, DbUpdateProfile sid (pd_email d) (pd_username d) (pd_bio d),
              RevalidateTag ''user-profile''] @
             (if old \<noteq> Some (pd_username d)
              then [RevalidatePath ''/'' Layout] @
                   (case old of None \<Rightarrow> []
                    | Some s \<Rightarrow> if s \<noteq> [] then [RevalidatePath (''/users/'' @ encodeURIComponent s) Page] else []) @
                   [RevalidatePath (''/users/'' @ encodeURIComponent (pd_username d)) Page,
                    RevalidatePath ''/tweets'' Layout, RevalidatePath ''/search'' Page]
              else [])"
proof (cases "getCurrentUsername E (session_id w1) (users w1)")
  case (Inl x)
  with assms show ?thesis
    by (simp add: updateProfile_try_def call_getCurrentUsername_def io_defs Let_def)
next
  case (Inr old)
  let ?w2 = "w1\<lparr>trace := trace w1 @ [GetCurrentUsername]\<rparr>"
  obtain x w3 where upd: "db_update_profile E sid (pd_email d) (pd_username d) (pd_bio d) ?w2 = (x, w3)"
    by (cases "db_update_profile E sid (pd_email d) (pd_username d) (pd_bio d) ?w2") auto
  show ?thesis
  proof (cases x)
    case (Inl e)
    with assms Inr upd show ?thesis
      by (simp add: updateProfile_try_def call_getCurrentUsername_def io_defs Let_def)
  next
    case (Inr u)
    with upd db_update_profile_Inr [of E sid "pd_email d" "pd_username d" "pd_bio d" ?w2 u w3]
    obtain i where i: "sid = Some i" "find (\<lambda>u. user_id u = i) (users w1) \<noteq> None"
      "w3 = ?w2\<lparr>trace := trace ?w2 @ [DbUpdateProfile sid (pd_email d) (pd_username d) (pd_bio d)],
                users := map (\<lambda>u. if user_id u = i
                                  then u\<lparr>user_email := pd_email d, user_username := pd_username d,
                                         user_bio := Some (pd_bio d)\<rparr>
                                  else u) (users ?w2)\<rparr>"
      by auto
    from assms \<open>getCurrentUsername E (session_id w1) (users w1) = Inr old\<close> upd Inr i
    show ?thesis
      by (auto simp: updateProfile_try_def call_getCurrentUsername_def io_defs revalidateTag_def Let_def
            revalidate_username_change_run)
  qed
qed

lemma try_trace:
  assumes "updateProfile_try E sid d w1 = (r, w')"
  shows "\<exists>es. trace w' = trace w1 @ es \<and> (\<forall>e \<in> set es. \<not> is_lookup e)"
proof (cases "getCurrentUsername E (session_id w1) (users w1)")
  case (Inl x)
  with assms show ?thesis
    by (auto simp: updateProfile_try_def call_getCurrentUsername_def io_defs is_lookup_def Let_def)
next
  case (Inr old)
  let ?w2 = "w1\<lparr>trace := trace w1 @ [GetCurrentUsername]\<rparr>"
  obtain x w3 where upd: "db_update_profile E sid (pd_email d) (pd_username d) (pd_bio d) ?w2 = (x, w3)"
    by (cases "db_update_profile E sid (pd_email d) (pd_username d) (pd_bio d) ?w2") auto
  show ?thesis
  proof (cases x)
    case (Inl e)
    with assms Inr upd db_update_profile_Inl [of E sid "pd_email d" "pd_username d" "pd_bio d" ?w2 e w3]
    show ?thesis
      by (auto simp: updateProfile_try_def call_getCurrentUsername_def io_defs is_lookup_def Let_def)
  next
    case (Inr u)
    from assms \<open>getCurrentUsername E (session_id w1) (users w1) = Inr old\<close> upd Inr
    have "\<exists>q. r = Inr q"
      by (auto simp: updateProfile_try_def call_getCurrentUsername_def io_defs revalidateTag_def Let_def
            revalidate_username_change_run split: if_splits)
    then obtain q where "r = Inr q" ..
    with assms try_result [of E sid d w1 q w'] show ?thesis
      by (auto simp: is_lookup_def split: option.splits)
  qed
qed


lemma updateProfile_unfold:
  "updateProfile E formData w =
     (case profileUpdateSchema_safeParseAsync E (formData_get formData ''email'')
             (formData_get formData ''username'') (coerce_bio (formData_get formData ''bio'')) w of
        (Inl e, w1) \<Rightarrow> (Inl e, w1)
      | (Inr (Failure iss), w1) \<Rightarrow> (Inr (flatten iss), w1)
      | (Inr (Success d), w1) \<Rightarrow>
          (case updateProfile_try E (session_id w) d w1 of
             (Inl e, w2) \<Rightarrow> (Inr (result_formErrors PROFILE_UPDATE_FAILED),
                             w2\<lparr>trace := trace w2 @ [ConsoleError ''Profile update error:'' e]\<rparr>)
           | (Inr r, w2) \<Rightarrow> (Inr r, w2)))"
  by (simp add: updateProfile_def io_defs console_error_def Let_def
        split: prod.splits sum.splits safe_parse.splits)

lemma updateProfile_success:
  assumes "updateProfile E formData w = (Inr r, w')" and "message r \<noteq> None"
  shows "\<exists>n0 e0 d w1 es.
           formData ''email'' = Some (FString e0) \<and> formData ''username'' = Some (FString n0) \<and>
           d = \<lparr>pd_email = toLowerCase (trim e0), pd_username = trim n0,
                pd_bio = coerce_bio (formData_get formData ''bio'')\<rparr> \<and>
           users w1 = users w \<and> session_id w1 = session_id w \<and>
           trace w1 = trace w @ es \<and> (\<forall>e \<in> set es. \<not> is_invalidation e) \<and>
           updateProfile_try E (session_id w) d w1 = (Inr r, w')"
proof -
  let ?em = "formData_get formData ''email''" and ?un = "formData_get formData ''username''"
  let ?b = "coerce_bio (formData_get formData ''bio'')"
  obtain q w1 where sp: "profileUpdateSchema_safeParseAsync E ?em ?un ?b w = (q, w1)"
    by (cases "profileUpdateSchema_safeParseAsync E ?em ?un ?b w") auto
  from assms sp obtain d where d: "q = Inr (Success d)"
    and tr: "updateProfile_try E (session_id w) d w1 = (Inr r, w')"
    by (auto simp: updateProfile_unfold flatten_def result_formErrors_def
          split: sum.splits safe_parse.splits prod.splits)
  from safeParse_Success [of E ?em ?un ?b w d w1] sp d obtain e n where
    pf: "profile_fields E ?em ?un = ([], Some e, Some n)" and
    dd: "d = \<lparr>pd_email = e, pd_username = n, pd_bio = ?b\<rparr>"
    by auto
  from profile_fields_Some [OF pf] obtain e0 n0 where
    f: "formData ''email'' = Some (FString e0)" "e = toLowerCase (trim e0)"
       "formData ''username'' = Some (FString n0)" "n = trim n0"
    by auto
  from safeParse_trace [OF sp] obtain es where
    "users w1 = users w" "session_id w1 = session_id w"
    "trace w1 = trace w @ es" "\<forall>x \<in> set es. \<not> is_invalidation x"
    by auto
  with f dd tr show ?thesis
    by blast
qed

lemma find_map_update:
  assumes "find (\<lambda>u. user_id u = i) us \<noteq> None" and "\<And>u. user_id (f u) = user_id u"
  shows "\<exists>u. find (\<lambda>u. user_id u = i) us = Some u \<and>
           find (\<lambda>u. user_id u = i) (map (\<lambda>u. if user_id u = i then f u else u) us) = Some (f u)"
  using assms by (induction us) auto

lemma updateProfile_after_validation:
  assumes "updateProfile E formData w = (q, w')"
      and "profileUpdateSchema_safeParseAsync E (formData_get formData ''email'')
             (formData_get formData ''username'') (coerce_bio (formData_get formData ''bio'')) w
           = (p, w1)"
  shows "\<exists>es2. trace w' = trace w1 @ es2 \<and> (\<forall>e \<in> set es2. \<not> is_lookup e)"
proof (cases p)
  case (Inl x)
  with assms have "w' = w1" by (simp add: updateProfile_unfold)
  then show ?thesis by simp
next
  case (Inr sp_res)
  show ?thesis
  proof (cases sp_res)
    case (Failure iss)
    with Inr assms have "w' = w1" by (simp add: updateProfile_unfold)
    then show ?thesis by simp
  next
    case (Success d)
    obtain t w2 where tr: "updateProfile_try E (session_id w) d w1 = (t, w2)"
      by (cases "updateProfile_try E (session_id w) d w1") auto
    from try_trace [OF tr] obtain es2 where
      es2: "trace w2 = trace w1 @ es2" "\<forall>e \<in> set es2. \<not> is_lookup e" by auto
    show ?thesis
    proof (cases t)
      case (Inl x)
      with Success Inr assms tr
      have "trace w' = trace w2 @ [ConsoleError ''Profile update error:'' x]"
        by (auto simp: updateProfile_unfold)
      with es2 have "trace w' = trace w1 @ (es2 @ [ConsoleError ''Profile update error:'' x]) \<and>
          (\<forall>e \<in> set (es2 @ [ConsoleError ''Profile update error:'' x]). \<not> is_lookup e)"
        by (auto simp: is_lookup_def)
      then show ?thesis by blast
    next
      case (Inr y)
      with Success \<open>p = Inr sp_res\<close> assms tr have "w' = w2"
        by (auto simp: updateProfile_unfold)
      with es2 show ?thesis by auto
    qed
  qed
qed

lemma updateProfile_trace:
  assumes "updateProfile E formData w = (q, w')"
  shows "\<exists>es. trace w' = trace w @ es \<and>
            (\<forall>m. DbFindByEmail m \<in> set es \<longrightarrow>
               (\<exists>e0. formData ''email'' = Some (FString e0) \<and> m = toLowerCase (trim e0)) \<and>
               (\<forall>u. current_user w = Some u \<longrightarrow> m \<noteq> user_email u)) \<and>
            (\<forall>m. DbFindByUsername m \<in> set es \<longrightarrow>
               (\<exists>n0. formData ''username'' = Some (FString n0) \<and> m = trim n0) \<and>
               (\<forall>u. current_user w = Some u \<longrightarrow> m \<noteq> user_username u))"
proof -
  let ?em = "formData_get formData ''email''" and ?un = "formData_get formData ''username''"
  let ?b = "coerce_bio (formData_get formData ''bio'')"
  obtain p w1 where sp: "profileUpdateSchema_safeParseAsync E ?em ?un ?b w = (p, w1)"
    by (cases "profileUpdateSchema_safeParseAsync E ?em ?un ?b w") auto
  from safeParse_trace [OF sp] obtain es where es:
    "trace w1 = trace w @ es"
    "\<forall>m. DbFindByEmail m \<in> set es \<longrightarrow>
               (\<exists>e0. formData ''email'' = Some (FString e0) \<and> m = toLowerCase (trim e0)) \<and>
               (\<forall>u. current_user w = Some u \<longrightarrow> m \<noteq> user_email u)"
    "\<forall>m. DbFindByUsername m \<in> set es \<longrightarrow>
               (\<exists>n0. formData ''username'' = Some (FString n0) \<and> m = trim n0) \<and>
               (\<forall>u. current_user w = Some u \<longrightarrow> m \<noteq> user_username u)"
    by blast
  from updateProfile_after_validation [OF assms sp]
  obtain es2 where es2: "trace w' = trace w1 @ es2" "\<forall>e \<in> set es2. \<not> is_lookup e"
    by auto
  have nl: "\<And>m. DbFindByEmail m \<notin> set es2 \<and> DbFindByUsername m \<notin> set es2"
    using es2(2) by (auto simp: is_lookup_def)
  have "trace w' = trace w @ (es @ es2)" using es(1) es2(1) by simp
  moreover have "\<forall>m. DbFindByEmail m \<in> set (es @ es2) \<longrightarrow>
               (\<exists>e0. formData ''email'' = Some (FString e0) \<and> m = toLowerCase (trim e0)) \<and>
               (\<forall>u. current_user w = Some u \<longrightarrow> m \<noteq> user_email u)"
    using es(2) nl by auto
  moreover have "\<forall>m. DbFindByUsername m \<in> set (es @ es2) \<longrightarrow>
               (\<exists>n0. formData ''username'' = Some (FString n0) \<and> m = trim n0) \<and>
               (\<forall>u. current_user w = Some u \<longrightarrow> m \<noteq> user_username u)"
    using es(3) nl by auto
  ultimately show ?thesis by blast
qed

lemma scenario_strings:
  "toLowerCase (trim ''A@X.com'') = ''a@x.com''" "trim ''bob'' = ''bob''"
  by code_simp+

lemma scenario_superRefine:
  assumes "session_id w = Some i" and "find (\<lambda>u. user_id u = i) (users w) = Some u"
      and "user_username u = ''bob''" and "user_email u \<noteq> ''a@x.com''"
      and "\<not> db_fault E (DbFindById (Some i))"
  shows "trace (snd (profile_superRefine E ''a@x.com'' ''bob'' w)) =
           trace w @ [DbFindById (Some i), DbFindByEmail ''a@x.com'']"
  using assms
  by (auto simp: profile_superRefine_def check_username_unique_def check_email_unique_def
        io_defs db_findUnique_id_def db_findUnique_email_def Let_def)

lemma example_strings:
  "trim '' robert '' = ''robert''" "encodeURIComponent ''bob'' = ''bob''"
  "encodeURIComponent ''robert'' = ''robert''" "toLowerCase (trim ''Bob@X.com '') = ''bob@x.com''"
  by code_simp+

lemma example_rename_run:
  "updateProfile example_env fd_rename example_world =
     (Inr (result_message PROFILE_UPDATED),
      \<lparr>users = [\<lparr>user_id = 1, user_email = ''bob@x.com'', user_username = ''robert'',
                  user_bio = Some [], user_password = ''H(pw1)''\<rparr>, example_carol],
       session_id = Some 1,
       trace = [DbFindById (Some 1), DbFindByUsername ''robert'', GetCurrentUsername,
                DbUpdateProfile (Some 1) ''bob@x.com'' ''robert'' [],
                RevalidateTag ''user-profile'', RevalidatePath ''/'' Layout,
                RevalidatePath ''/users/bob'' Page, RevalidatePath ''/users/robert'' Page,
                RevalidatePath ''/tweets'' Layout, RevalidatePath ''/search'' Page]\<rparr>)"
  by code_simp

lemma example_same_run:
  "updateProfile example_env fd_same example_world =
     (Inr (result_message PROFILE_UPDATED),
      \<lparr>users = [\<lparr>user_id = 1, user_email = ''bob@x.com'', user_username = ''bob'',
                  user_bio = Some [], user_password = ''H(pw1)''\<rparr>, example_carol],
       session_id = Some 1,
       trace = [DbFindById (Some 1), GetCurrentUsername,
                DbUpdateProfile (Some 1) ''bob@x.com'' ''bob'' [],
                RevalidateTag ''user-profile'']\<rparr>)"
  by code_simp

lemma example_scenario_run:
  "updateProfile example_env fd_scenario example_world =
     (Inr (result_message PROFILE_UPDATED),
      \<lparr>users = [\<lparr>user_id = 1, user_email = ''a@x.com'', user_username = ''bob'',
                  user_bio = Some [], user_password = ''H(pw1)''\<rparr>, example_carol],
       session_id = Some 1,
       trace = [DbFindById (Some 1), DbFindByEmail ''a@x.com'', GetCurrentUsername,
                DbUpdateProfile (Some 1) ''a@x.com'' ''bob'' [],
                RevalidateTag ''user-profile'']\<rparr>)"
  by code_simp

subsection \<open>updateProfile\<close>

text \<open>
  C3. In \<open>updateProfile\<close>, when the session's user has a record: if the submitted email,
  trimmed and lower-cased, is the stored email, no lookup by email is issued during the
  whole invocation, and if the submitted username, trimmed, is the stored username, no
  lookup by username is issued. Conversely every lookup by email (by username) that is
  issued asks for a value different from the stored one.
\<close>

theorem updateProfile_no_self_lookup:
  assumes "current_user w = Some u"
  shows "(\<forall>e. formData ''email'' = Some (FString e) \<and> toLowerCase (trim e) = user_email u \<longrightarrow>
            (\<forall>m. DbFindByEmail m \<notin> set (new_events w (snd (updateProfile E formData w)))))
       \<and> (\<forall>n. formData ''username'' = Some (FString n) \<and> trim n = user_username u \<longrightarrow>
            (\<forall>m. DbFindByUsername m \<notin> set (new_events w (snd (updateProfile E formData w)))))
       \<and> (\<forall>m. DbFindByEmail m \<in> set (new_events w (snd (updateProfile E formData w))) \<longrightarrow>
            m \<noteq> user_email u)
       \<and> (\<forall>m. DbFindByUsername m \<in> set (new_events w (snd (updateProfile E formData w))) \<longrightarrow>
            m \<noteq> user_username u)"
proof -
  obtain q w' where up: "updateProfile E formData w = (q, w')"
    by (cases "updateProfile E formData w") auto
  from updateProfile_trace [OF up] obtain es where es:
    "trace w' = trace w @ es"
    "\<forall>m. DbFindByEmail m \<in> set es \<longrightarrow>
               (\<exists>e0. formData ''email'' = Some (FString e0) \<and> m = toLowerCase (trim e0)) \<and>
               (\<forall>u. current_user w = Some u \<longrightarrow> m \<noteq> user_email u)"
    "\<forall>m. DbFindByUsername m \<in> set es \<longrightarrow>
               (\<exists>n0. formData ''username'' = Some (FString n0) \<and> m = trim n0) \<and>
               (\<forall>u. current_user w = Some u \<longrightarrow> m \<noteq> user_username u)"
    by blast
  from es(1) up have ne: "new_events w (snd (updateProfile E formData w)) = es"
    by (simp add: new_events_def)
  show ?thesis
    unfolding ne using es(2,3) assms by auto
qed

theorem updateProfile_no_self_lookup_witness:
  "current_user example_world = Some example_bob
   \<and> (\<forall>m. DbFindByEmail m \<notin>
            set (new_events example_world (snd (updateProfile example_env fd_same example_world))))
   \<and> (\<forall>m. DbFindByUsername m \<notin>
            set (new_events example_world (snd (updateProfile example_env fd_same example_world))))"
proof -
  have cu: "current_user example_world = Some example_bob"
    by (simp add: current_user_def example_defs)
  have e: "fd_same ''email'' = Some (FString ''Bob@X.com '') \<and>
           toLowerCase (trim ''Bob@X.com '') = user_email example_bob"
    by (simp add: fd_same_def example_strings example_bob_def)
  have n: "fd_same ''username'' = Some (FString ''bob'') \<and> trim ''bob'' = user_username example_bob"
    by (simp add: fd_same_def scenario_strings example_bob_def)
  from updateProfile_no_self_lookup [OF cu, of fd_same example_env] e n cu
  show ?thesis by blast
qed

text \<open>
  C5. In \<open>updateProfile\<close>, when the handler returns the success message, the invalidation
  calls it made are, in this order: when the name answered by \<open>getCurrentUsername\<close> differs
  from the new username, the tag \<open>user-profile\<close>, the layout of \<open>/\<close>, the page of the old
  user (only when the old name is neither \<open>null\<close> nor empty), the page of the new user,
  the layout of \<open>/tweets\<close> and the page \<open>/search\<close>; otherwise the tag \<open>user-profile\<close>
  alone.
\<close>

theorem updateProfile_invalidations:
  assumes "updateProfile E formData w = (Inr r, w')" and "message r \<noteq> None"
      and "formData ''username'' = Some (FString n)"
      and "getCurrentUsername E (session_id w) (users w) = Inr oldUsername"
  shows "filter is_invalidation (new_events w w') =
           (if oldUsername \<noteq> Some (trim n)
            then [RevalidateTag ''user-profile'', RevalidatePath ''/'' Layout] @
                 (case oldUsername of
                    None \<Rightarrow> []
                  | Some old \<Rightarrow>
                      if old \<noteq> [] then [RevalidatePath (''/users/'' @ encodeURIComponent old) Page]
                      else []) @
                 [RevalidatePath (''/users/'' @ encodeURIComponent (trim n)) Page,
                  RevalidatePath ''/tweets'' Layout, RevalidatePath ''/search'' Page]
            else [RevalidateTag ''user-profile''])"
proof -
  from updateProfile_success [OF assms(1,2)] assms(3) obtain e0 d w1 es where
    d: "d = \<lparr>pd_email = toLowerCase (trim e0), pd_username = trim n,
             pd_bio = coerce_bio (formData_get formData ''bio'')\<rparr>" and
    w1: "users w1 = users w" "session_id w1 = session_id w" "trace w1 = trace w @ es" and
    es: "\<forall>e \<in> set es. \<not> is_invalidation e" and
    tr: "updateProfile_try E (session_id w) d w1 = (Inr r, w')"
    by auto
  from es have fes: "filter is_invalidation es = []" by (simp add: filter_empty_conv)
  from try_result [OF tr] w1 assms(4) d have
    "trace w' = trace w @ es @
             [GetCurrentUsername,
              DbUpdateProfile (session_id w) (pd_email d) (pd_username d) (pd_bio d),
              RevalidateTag ''user-profile''] @
             (if oldUsername \<noteq> Some (trim n)
              then [RevalidatePath ''/'' Layout] @
                   (case oldUsername of None \<Rightarrow> []
                    | Some s \<Rightarrow> if s \<noteq> [] then [RevalidatePath (''/users/'' @ encodeURIComponent s) Page] else []) @
                   [RevalidatePath (''/users/'' @ encodeURIComponent (trim n)) Page,
                    RevalidatePath ''/tweets'' Layout, RevalidatePath ''/search'' Page]
              else [])"
    by auto
  then show ?thesis
    using fes by (auto simp: new_events_def is_invalidation_def split: option.splits)
qed

theorem updateProfile_invalidations_witness:
  "filter is_invalidation
     (new_events example_world (snd (updateProfile example_env fd_rename example_world))) =
     [RevalidateTag ''user-profile'', RevalidatePath ''/'' Layout,
      RevalidatePath ''/users/bob'' Page, RevalidatePath ''/users/robert'' Page,
      RevalidatePath ''/tweets'' Layout, RevalidatePath ''/search'' Page]
   \<and> filter is_invalidation
     (new_events example_world (snd (updateProfile example_env fd_same example_world))) =
     [RevalidateTag ''user-profile'']"
  using updateProfile_invalidations [OF example_rename_run, of "'' robert ''" "Some ''bob''"]
        updateProfile_invalidations [OF example_same_run, of "''bob''" "Some ''bob''"]
  unfolding example_rename_run example_same_run snd_conv
  by (simp add: result_message_def fd_rename_def fd_same_def
        example_defs example_strings scenario_strings)

text \<open>
  C6. The scenario of the specification: for the form
  \<open>{email: "A@X.com", username: "bob", bio: ""}\<close>, an actor whose stored username is \<open>bob\<close>
  and whose stored email is not \<open>a@x.com\<close>, and a lookup of the actor that does not fail,
  the first two calls are the lookup of the actor and the lookup by email of
  \<open>a@x.com\<close>; no lookup by username is issued, and no lookup by another email.
\<close>

theorem updateProfile_scenario:
  assumes "formData ''email'' = Some (FString ''A@X.com'')"
      and "formData ''username'' = Some (FString ''bob'')"
      and "formData ''bio'' = Some (FString [])"
      and "session_id w = Some i" and "find (\<lambda>u. user_id u = i) (users w) = Some u"
      and "user_username u = ''bob''" and "user_email u \<noteq> ''a@x.com''"
      and "\<not> db_fault E (DbFindById (Some i))"
  shows "take 2 (new_events w (snd (updateProfile E formData w))) =
           [DbFindById (Some i), DbFindByEmail ''a@x.com'']
       \<and> (\<forall>m. DbFindByUsername m \<notin> set (new_events w (snd (updateProfile E formData w))))
       \<and> (\<forall>m. DbFindByEmail m \<in> set (new_events w (snd (updateProfile E formData w))) \<longrightarrow>
            m = ''a@x.com'')"
proof -
  let ?em = "formData_get formData ''email''" and ?un = "formData_get formData ''username''"
  let ?b = "coerce_bio (formData_get formData ''bio'')"
  obtain q w' where up: "updateProfile E formData w = (q, w')"
    by (cases "updateProfile E formData w") auto
  obtain p w1 where sp: "profileUpdateSchema_safeParseAsync E ?em ?un ?b w = (p, w1)"
    by (cases "profileUpdateSchema_safeParseAsync E ?em ?un ?b w") auto
  have "\<exists>iss. profile_fields E ?em ?un = (iss, Some ''a@x.com'', Some ''bob'')"
    using assms(1,2)
    by (simp add: profile_fields_def zod_string_def formData_get_def scenario_strings
          split: prod.splits)
  then obtain iss where "profile_fields E ?em ?un = (iss, Some ''a@x.com'', Some ''bob'')" ..
  with sp have "w1 = snd (profile_superRefine E ''a@x.com'' ''bob'' w)"
    by (auto simp: profileUpdateSchema_safeParseAsync_def io_defs split: prod.splits sum.splits)
  with scenario_superRefine [OF assms(4-8)]
  have t1: "trace w1 = trace w @ [DbFindById (Some i), DbFindByEmail ''a@x.com'']" by simp
  from updateProfile_after_validation [OF up sp]
  obtain es2 where es2: "trace w' = trace w1 @ es2" "\<forall>e \<in> set es2. \<not> is_lookup e"
    by auto
  from t1 es2(1) up
  have ne: "new_events w (snd (updateProfile E formData w)) =
              [DbFindById (Some i), DbFindByEmail ''a@x.com''] @ es2"
    by (simp add: new_events_def)
  show ?thesis
    unfolding ne using es2(2) by (auto simp: is_lookup_def)
qed

theorem updateProfile_scenario_witness:
  "take 2 (new_events example_world (snd (updateProfile example_env fd_scenario example_world))) =
     [DbFindById (Some 1), DbFindByEmail ''a@x.com'']
   \<and> (\<forall>m. DbFindByUsername m \<notin>
            set (new_events example_world (snd (updateProfile example_env fd_scenario example_world))))"
  using updateProfile_scenario [of fd_scenario example_world 1 example_bob example_env]
  by (simp add: fd_scenario_def example_defs)

text \<open>
  C10. In \<open>updateProfile\<close>, the \<open>bio\<close> entry is coerced to a string before validation
  (\<open>coerce_bio\<close>; an absent entry becomes the empty string), and whenever the handler
  returns the success message the record of the session's user holds that string as its
  bio: a form without \<open>bio\<close> stores the empty string, whatever was stored before.
\<close>

theorem updateProfile_persists_bio:
  assumes "updateProfile E formData w = (Inr r, w')" and "message r \<noteq> None"
  shows "\<exists>i u'. session_id w = Some i \<and> find (\<lambda>u. user_id u = i) (users w') = Some u' \<and>
           user_bio u' = Some (coerce_bio (formData_get formData ''bio'')) \<and>
           (formData ''bio'' = None \<longrightarrow> user_bio u' = Some [])"
proof -
  from updateProfile_success [OF assms] obtain e0 n0 d w1 where
    d: "d = \<lparr>pd_email = toLowerCase (trim e0), pd_username = trim n0,
             pd_bio = coerce_bio (formData_get formData ''bio'')\<rparr>" and
    w1: "users w1 = users w" "session_id w1 = session_id w" and
    tr: "updateProfile_try E (session_id w) d w1 = (Inr r, w')"
    by auto
  let ?f = "\<lambda>u. u\<lparr>user_email := pd_email d, user_username := pd_username d,
                     user_bio := Some (pd_bio d)\<rparr>"
  from try_result [OF tr] w1 obtain i where
    i: "session_id w = Some i" "find (\<lambda>u. user_id u = i) (users w) \<noteq> None"
       "users w' = map (\<lambda>u. if user_id u = i then ?f u else u) (users w)"
    by auto
  from find_map_update [of i "users w" ?f, OF i(2)] obtain u where
    "find (\<lambda>u. user_id u = i) (users w') = Some (?f u)"
    using i(3) by auto
  moreover have "formData ''bio'' = None \<longrightarrow> coerce_bio (formData_get formData ''bio'') = []"
    by (simp add: coerce_bio_def formData_get_def toString_opt_def)
  ultimately show ?thesis using i(1) d by auto
qed

theorem updateProfile_persists_bio_witness:
  "fd_same ''bio'' = None \<and> user_bio example_bob = Some ''hello'' \<and>
   (\<exists>u'. find (\<lambda>u. user_id u = 1) (users (snd (updateProfile example_env fd_same example_world)))
            = Some u' \<and> user_bio u' = Some [])"
  using updateProfile_persists_bio [OF example_same_run]
  unfolding example_same_run snd_conv
  by (simp add: result_message_def fd_same_def example_defs)

subsection \<open>All three handlers\<close>


















end
